theory Spec2Isabelle
  imports Main "HOL-Library.Multiset"
begin

section \<open>Shared data model\<close>

text \<open>
  The admin views (\<^verbatim>\<open>enterprise/admin/views.py\<close>) and the signal handlers
  (\<^verbatim>\<open>enterprise/signals.py\<close>) are embedded as functions over one record of everything
  they can change: database tables, the form's errors, the user-facing messages, the log,
  the calls made to helpers and to remote services, and the work scheduled for later.
  Whatever the code only reads from outside (helper functions of other modules, the answers of
  remote services, settings) is a field of a record of parameters.
\<close>

type_synonym email = string

type_synonym csv_file = string

text \<open>The body of an \<^verbatim>\<open>HttpClientError\<close>, as
  \<^verbatim>\<open>json.loads(exc.content.decode())\<close> sees it: bytes that do not decode or parse (a
  \<^verbatim>\<open>ValueError\<close>), a JSON object, or another JSON value (which has no \<^verbatim>\<open>get\<close>).\<close>

datatype http_body = Not_JSON | JSON_object "(string \<times> string) list" | JSON_other

datatype exn =
    User_DoesNotExist
  | EnterpriseCustomer_DoesNotExist
  | EnterpriseCustomerUser_DoesNotExist
  | PendingEnterpriseCustomerUser_DoesNotExist
  | MultipleObjectsReturned
  | HttpClientError http_body
  | NotConnectedToOpenEdX
  | ValueError
  | AttributeError
  | KeyError string
  | OtherError string

record enterprise_customer =
  ec_uuid :: string
  ec_name :: string

record user =
  user_id :: nat
  user_email :: email
  user_username :: string

text \<open>Rows of \<^verbatim>\<open>PendingEnterpriseCustomerUser\<close> and of
  \<^verbatim>\<open>PendingEnterpriseCustomerAdminUser\<close>: the customer (its uuid) and the email.\<close>

record pending_enterprise_customer_user =
  pecu_enterprise_customer :: string
  pecu_user_email :: email

record pending_enterprise_customer_admin_user =
  peca_enterprise_customer :: string
  peca_user_email :: email

record pending_enrollment =
  pe_user :: pending_enterprise_customer_user
  pe_course_id :: string
  pe_course_mode :: string

datatype form_field = EMAIL_OR_USERNAME | BULK_UPLOAD | GENERAL_ERRORS

datatype validation_message = INVALID_EMAIL_OR_USERNAME | BULK_LINK_FAILED

text \<open>Form errors: a \<^verbatim>\<open>ValidationMessages\<close> constant, the message of a
  \<^verbatim>\<open>ValidationError\<close>, or \<^verbatim>\<open>"Error at line {line}: {message}\n"\<close>.\<close>

datatype form_message =
    Constant_message validation_message
  | Text_message string
  | Error_at_line nat string

text \<open>The texts given to \<^verbatim>\<open>messages.success\<close>, \<^verbatim>\<open>messages.warning\<close> and
  \<^verbatim>\<open>messages.error\<close>, by their template and its arguments.\<close>

datatype message_text =
    Users_linked nat string
  | Already_linked "email list"
  | Duplicates_ignored "email list"
  | Users_enrolled nat string
  | No_account string "email list"
  | Enrollment_failed "email list"

datatype message_level = Success | Warning | Error

datatype log_entry =
    Error_while_enrolling string string
  | Unable_to_update_catalog string
  | Unable_to_delete_catalog string
  | Orphaned_content_audit string
  | More_than_one_active_ecu nat string
  | Spinning_off_task nat



text \<open>The fields sent to the catalog service, by \<^verbatim>\<open>create_enterprise_catalog\<close>
  positionally (after the catalog's uuid) and by \<^verbatim>\<open>update_enterprise_catalog\<close> as
  \<^verbatim>\<open>update_fields\<close>.\<close>

record catalog_fields =
  f_enterprise_customer :: string
  f_enterprise_customer_name :: string
  f_title :: string
  f_content_filter :: string
  f_enabled_course_modes :: "string list"
  f_publish_audit_enrollment_urls :: bool
  f_catalog_query_uuid :: "string option"
  f_query_title :: "string option"
  f_include_exec_ed_2u_courses :: bool

text \<open>Outbound HTTP calls: the LMS enrollment API and the enterprise-catalog service. The
  flag of \<^verbatim>\<open>get_enterprise_catalog\<close> is \<^verbatim>\<open>should_raise_exception\<close>, \<open>None\<close> when the
  call leaves it to the client's default.\<close>

datatype outbound_call =
    Enroll_user_in_course string string string
  | Get_enterprise_catalog string "bool option"
  | Create_enterprise_catalog string catalog_fields
  | Update_enterprise_catalog string catalog_fields
  | Refresh_catalogs "string list"
  | Delete_enterprise_catalog string

datatype role = Enterprise_learner | Enterprise_admin

text \<open>Work the code hands to the task queue: \<^verbatim>\<open>create_enterprise_enrollment.apply_async\<close>
  with its arguments and countdown, and \<^verbatim>\<open>mark_orphaned_content_metadata_audit.delay()\<close>.\<close>

datatype task =
    Create_enterprise_enrollment string nat nat
  | Mark_orphaned_content_metadata_audit

text \<open>A callback registered with \<^verbatim>\<open>transaction.on_commit\<close>: the closure
  \<^verbatim>\<open>submit_task\<close> over the user's id, the course id, the customer user's id and the
  countdown.\<close>

datatype callback = Submit_task nat string nat nat

text \<open>An \<^verbatim>\<open>EnterpriseCustomerUser\<close>. \<open>ecu_user\<close> is its \<^verbatim>\<open>user\<close> property: the user
  with id \<^verbatim>\<open>user_id\<close>, \<open>None\<close> when there is none.\<close>

record enterprise_customer_user =
  ecu_id :: nat
  ecu_user_id :: nat
  ecu_user :: "user option"
  ecu_enterprise_customer :: enterprise_customer
  ecu_linked :: bool
  ecu_active :: bool

record branding_row =
  row_logo :: "string option"

record world =
  users :: "user list"
  customers :: "enterprise_customer list"
  customer_users :: "enterprise_customer_user list"
  pending_users :: "pending_enterprise_customer_user list"
  pending_admins :: "pending_enterprise_customer_admin_user list"
  pending_enrollments :: "pending_enrollment list"
  role_assignments :: "(nat \<times> role \<times> string) set"
  branding_rows :: "nat \<Rightarrow> branding_row option"
  branding_last_id :: nat
  form_errors :: "(form_field \<times> form_message) list"
  messages :: "(message_level \<times> message_text) list"
  link_user_calls :: "(string \<times> email) list"
  unlink_user_calls :: "(string \<times> email) list"
  outbound_calls :: "outbound_call list"
  logged :: "log_entry list"
  on_commit :: "callback list"
  task_queue :: "task list"

section \<open>The admin views\<close>

text \<open>
  What \<^verbatim>\<open>views.py\<close> imports from modules that are not part of the sources, and what the
  LMS answers:
  \<^item> \<^verbatim>\<open>email_or_username__to__email\<close>;
  \<^item> \<^verbatim>\<open>validate_email_to_link(email, raw_email, message_template, ignore_existing)\<close>, which
    raises a \<^verbatim>\<open>ValidationError\<close> (\<open>Inl\<close> its message) or returns whether the email is
    already linked;
  \<^item> \<^verbatim>\<open>parse_csv(csv_file, expected_columns={EMAIL})\<close>, an iterator: the email column of
    the rows it yields, and the message of the \<^verbatim>\<open>ValidationError\<close> that ends it, if any;
  \<^item> the order in which Python iterates a set of strings, which follows their hashes;
  \<^item> \<^verbatim>\<open>EnrollmentApiClient.enroll_user_in_course\<close>: \<open>None\<close> when it returns, the
    exception when it raises;
  \<^item> \<^verbatim>\<open>EnterpriseCustomerUser.objects.unlink_user\<close>, likewise;
  \<^item> \<^verbatim>\<open>settings.PLATFORM_NAME\<close>.
\<close>

record helpers =
  email_or_username__to__email :: "string \<Rightarrow> email"
  validate_email_to_link ::
    "email \<Rightarrow> string option \<Rightarrow> validation_message option \<Rightarrow> bool \<Rightarrow> string + bool"
  parse_csv :: "csv_file \<Rightarrow> email list \<times> string option"
  str_hash :: "string \<Rightarrow> nat"
  enroll_user_in_course :: "string \<Rightarrow> string \<Rightarrow> string \<Rightarrow> exn option"
  unlink_user :: "enterprise_customer \<Rightarrow> email \<Rightarrow> exn option"
  PLATFORM_NAME :: string

text \<open>\<^verbatim>\<open>EnterpriseCustomerUser.objects.link_user(enterprise_customer, email)\<close> is recorded
  as a call.\<close>

definition link_user :: "enterprise_customer \<Rightarrow> email \<Rightarrow> world \<Rightarrow> world" where
  "link_user enterprise_customer email w =
     w\<lparr>link_user_calls := link_user_calls w @ [(ec_uuid enterprise_customer, email)]\<rparr>"

definition add_error :: "form_field \<Rightarrow> form_message \<Rightarrow> world \<Rightarrow> world" where
  "add_error field message w = w\<lparr>form_errors := form_errors w @ [(field, message)]\<rparr>"

definition add_message :: "message_level \<Rightarrow> message_text \<Rightarrow> world \<Rightarrow> world" where
  "add_message level text w = w\<lparr>messages := messages w @ [(level, text)]\<rparr>"

subsection \<open>\<^verbatim>\<open>_handle_singular\<close>\<close>

definition handle_singular ::
  "helpers \<Rightarrow> enterprise_customer \<Rightarrow> string \<Rightarrow> world \<Rightarrow> email list option \<times> world" where
  "handle_singular h enterprise_customer form_field_value w =
     (let email = email_or_username__to__email h form_field_value in
      case validate_email_to_link h email (Some form_field_value)
             (Some INVALID_EMAIL_OR_USERNAME) False of
        Inl message \<Rightarrow> (None, add_error EMAIL_OR_USERNAME (Text_message message) w)
      | Inr _ \<Rightarrow> (Some [email], link_user enterprise_customer email w))"

subsection \<open>\<^verbatim>\<open>_handle_bulk_upload\<close>\<close>

text \<open>The loop over the parsed rows. The accumulator is \<open>(errors, emails,
  already_linked_emails, duplicate_emails)\<close>; \<open>emails\<close> is the Python set, kept without
  repetition.\<close>

type_synonym bulk_lists = "form_message list \<times> email list \<times> email list \<times> email list"

fun bulk_rows :: "helpers \<Rightarrow> nat \<Rightarrow> email list \<Rightarrow> bulk_lists \<Rightarrow> bulk_lists" where
  "bulk_rows h index [] acc = acc"
| "bulk_rows h index (email # rows) (errors, emails, already_linked_emails, duplicate_emails) =
     bulk_rows h (index + 1) rows
       (case validate_email_to_link h email None None True of
          Inl message \<Rightarrow>
            (errors @ [Error_at_line (index + 1) message], emails, already_linked_emails,
             duplicate_emails)
        | Inr already_linked \<Rightarrow>
            if already_linked then
              (errors, emails, already_linked_emails @ [email], duplicate_emails)
            else if email \<in> set emails then
              (errors, emails, already_linked_emails, duplicate_emails @ [email])
            else (errors, emails @ [email], already_linked_emails, duplicate_emails))"

text \<open>The \<^verbatim>\<open>try\<close> block: the rows, then the error that ended the iteration, if any.\<close>

definition bulk_collect :: "helpers \<Rightarrow> csv_file \<Rightarrow> bulk_lists" where
  "bulk_collect h csv_file =
     (case parse_csv h csv_file of (rows, failure) \<Rightarrow>
        (case bulk_rows h 0 rows ([], [], [], []) of
           (errors, emails, already_linked_emails, duplicate_emails) \<Rightarrow>
             (case failure of
                None \<Rightarrow> (errors, emails, already_linked_emails, duplicate_emails)
              | Some message \<Rightarrow>
                  (errors @ [Text_message message], emails, already_linked_emails,
                   duplicate_emails))))"

text \<open>\<^verbatim>\<open>for email in emails\<close> and \<^verbatim>\<open>list(emails)\<close>: the set in its iteration order.\<close>

definition set_iteration :: "helpers \<Rightarrow> email list \<Rightarrow> email list" where
  "set_iteration h emails = sort_key (str_hash h) emails"

definition handle_bulk_upload ::
  "helpers \<Rightarrow> enterprise_customer \<Rightarrow> csv_file \<Rightarrow> world \<Rightarrow> email list option \<times> world" where
  "handle_bulk_upload h enterprise_customer csv_file w =
     (case bulk_collect h csv_file of
        (errors, emails, already_linked_emails, duplicate_emails) \<Rightarrow>
          if errors \<noteq> [] then
            (None,
             fold (add_error BULK_UPLOAD) errors
               (add_error GENERAL_ERRORS (Constant_message BULK_LINK_FAILED) w))
          else
            (let w1 = fold (link_user enterprise_customer) (set_iteration h emails) w;
                 count = length emails;
                 w2 = add_message Success (Users_linked count (ec_name enterprise_customer)) w1;
                 w3 = (if already_linked_emails \<noteq> []
                       then add_message Warning (Already_linked already_linked_emails) w2
                       else w2);
                 w4 = (if duplicate_emails \<noteq> []
                       then add_message Warning (Duplicates_ignored duplicate_emails) w3
                       else w3)
             in (Some (set_iteration h emails @ already_linked_emails), w4)))"

subsection \<open>Django's \<^verbatim>\<open>objects.get\<close>\<close>


subsection \<open>\<^verbatim>\<open>_enroll_users\<close>\<close>







subsection \<open>\<^verbatim>\<open>EnterpriseCustomerManageLearnersView.delete\<close>\<close>



subsection \<open>The outcomes of \<^verbatim>\<open>_enroll_users\<close>\<close>










section \<open>The signal handlers\<close>

subsection \<open>\<^verbatim>\<open>skip_saving_logo_file\<close> and \<^verbatim>\<open>save_logo_file\<close>\<close>





text \<open>\<^verbatim>\<open>instance.save()\<close> sends \<^verbatim>\<open>pre_save\<close>, writes the row and sends
  \<^verbatim>\<open>post_save\<close>; \<^verbatim>\<open>save_logo_file\<close>, the \<^verbatim>\<open>post_save\<close> receiver, calls
  \<^verbatim>\<open>instance.save()\<close> again.\<close>




subsection \<open>Role assignments of an \<^verbatim>\<open>EnterpriseCustomerUser\<close>\<close>

text \<open>Modelled from the spec: \<^verbatim>\<open>enterprise/roles_api.py\<close> is not among the sources. Its
  three functions are taken at the word of the handlers' docstrings: they assign the
  \<^verbatim>\<open>enterprise_learner\<close> role to a user for an enterprise customer, and delete the learner
  or the admin role assignment of a user for an enterprise customer.\<close>

definition assign_learner_role :: "user \<Rightarrow> enterprise_customer \<Rightarrow> world \<Rightarrow> world" where
  "assign_learner_role u enterprise_customer w =
     w\<lparr>role_assignments :=
         insert (user_id u, Enterprise_learner, ec_uuid enterprise_customer)
           (role_assignments w)\<rparr>"

definition delete_learner_role_assignment :: "user \<Rightarrow> enterprise_customer \<Rightarrow> world \<Rightarrow> world"
  where
  "delete_learner_role_assignment u enterprise_customer w =
     w\<lparr>role_assignments :=
         role_assignments w - {(user_id u, Enterprise_learner, ec_uuid enterprise_customer)}\<rparr>"

definition delete_admin_role_assignment :: "user \<Rightarrow> enterprise_customer \<Rightarrow> world \<Rightarrow> world"
  where
  "delete_admin_role_assignment u enterprise_customer w =
     w\<lparr>role_assignments :=
         role_assignments w - {(user_id u, Enterprise_admin, ec_uuid enterprise_customer)}\<rparr>"

definition delete_enterprise_admin_role_assignment ::
  "enterprise_customer_user \<Rightarrow> world \<Rightarrow> world" where
  "delete_enterprise_admin_role_assignment inst w =
     (case ecu_user inst of
        Some u \<Rightarrow> delete_admin_role_assignment u (ecu_enterprise_customer inst) w
      | None \<Rightarrow> w)"

definition assign_or_delete_enterprise_learner_role ::
  "enterprise_customer_user \<Rightarrow> bool \<Rightarrow> world \<Rightarrow> world" where
  "assign_or_delete_enterprise_learner_role inst created w =
     (case ecu_user inst of
        None \<Rightarrow> w
      | Some u \<Rightarrow>
          if created then assign_learner_role u (ecu_enterprise_customer inst) w
          else if \<not> created then
            (if ecu_linked inst
             then assign_learner_role u (ecu_enterprise_customer inst) w
             else delete_learner_role_assignment u (ecu_enterprise_customer inst) w)
          else w)"

definition delete_enterprise_learner_role_assignment ::
  "enterprise_customer_user \<Rightarrow> world \<Rightarrow> world" where
  "delete_enterprise_learner_role_assignment inst w =
     (case ecu_user inst of
        None \<Rightarrow> w
      | Some u \<Rightarrow> delete_learner_role_assignment u (ecu_enterprise_customer inst) w)"

text \<open>The receivers of \<^verbatim>\<open>post_delete\<close> of \<^verbatim>\<open>EnterpriseCustomerUser\<close>, in the order in
  which the module connects them.\<close>

definition post_delete_enterprise_customer_user ::
  "enterprise_customer_user \<Rightarrow> world \<Rightarrow> world" where
  "post_delete_enterprise_customer_user inst w =
     delete_enterprise_learner_role_assignment inst
       (delete_enterprise_admin_role_assignment inst w)"

subsection \<open>Pending admin users\<close>







subsection \<open>Synchronising catalogs with the enterprise-catalog service\<close>










subsection \<open>\<^verbatim>\<open>create_enterprise_enrollment_receiver\<close>\<close>







section \<open>Concrete scenarios\<close>

text \<open>Small concrete inputs, on which the properties below are instantiated.\<close>

definition example_helpers :: helpers where
  "example_helpers =
     \<lparr>email_or_username__to__email =
        (\<lambda>v. if v = ''alice'' then ''alice@example.com'' else v),
      validate_email_to_link =
        (\<lambda>e raw template ignore_existing.
           if e = ''not-an-email'' then Inl ''invalid''
           else if e = ''old@example.com''
             then (if ignore_existing then Inr True else Inl ''already linked'')
           else Inr False),
      parse_csv =
        (\<lambda>f. if f = ''good.csv''
               then ([''bob@example.com'', ''al@example.com'', ''old@example.com'',
                      ''bob@example.com''], None)
             else if f = ''bad.csv''
               then ([''bob@example.com'', ''not-an-email'', ''al@example.com''], None)
             else ([], Some ''missing column'')),
      str_hash = length,
      enroll_user_in_course =
        (\<lambda>username course_id mode.
           if username = ''bob''
             then Some (HttpClientError (JSON_object [(''message'', ''closed'')]))
           else if username = ''frank'' then Some (HttpClientError Not_JSON)
           else None),
      unlink_user = (\<lambda>c e. if e = ''alice@example.com'' then None
                            else Some PendingEnterpriseCustomerUser_DoesNotExist),
      PLATFORM_NAME = ''edX''\<rparr>"

definition acme :: enterprise_customer where
  "acme = \<lparr>ec_uuid = ''acme-uuid'', ec_name = ''Acme''\<rparr>"

definition empty_world :: world where
  "empty_world =
     \<lparr>users = [], customers = [], customer_users = [], pending_users = [], pending_admins = [], pending_enrollments = [],
      role_assignments = {}, branding_rows = (\<lambda>_. None), branding_last_id = 0,
      form_errors = [], messages = [], link_user_calls = [], unlink_user_calls = [],
      outbound_calls = [], logged = [], on_commit = [], task_queue = []\<rparr>"




definition bob :: user where
  "bob = \<lparr>user_id = 1, user_email = ''bob@example.com'', user_username = ''bob''\<rparr>"

definition unlinked_learner :: enterprise_customer_user where
  "unlinked_learner =
     \<lparr>ecu_id = 10, ecu_user_id = 1, ecu_user = Some bob, ecu_enterprise_customer = acme,
      ecu_linked = False, ecu_active = True\<rparr>"

definition with_roles :: world where
  "with_roles = empty_world
     \<lparr>role_assignments :=
        {(1, Enterprise_learner, ''acme-uuid''), (1, Enterprise_admin, ''acme-uuid''),
         (2, Enterprise_learner, ''acme-uuid'')}\<rparr>"











section \<open>Properties\<close>

subsection \<open>Bulk linking\<close>

lemma bulk_rows_errors_length:
  "length (fst (bulk_rows h i rows (er, em, al, du))) =
   length er + length (filter (\<lambda>e. isl (validate_email_to_link h e None None True)) rows)"
  by (induction rows arbitrary: i er em al du) (auto split: sum.splits)

lemma bulk_rows_emails:
  "set (fst (snd (bulk_rows h i rows (er, em, al, du)))) =
     set em \<union> {e \<in> set rows. validate_email_to_link h e None None True = Inr False}"
  by (induction rows arbitrary: i er em al du) (auto split: sum.splits)

lemma bulk_rows_distinct:
  "distinct em \<Longrightarrow> distinct (fst (snd (bulk_rows h i rows (er, em, al, du))))"
  by (induction rows arbitrary: i er em al du) (auto split: sum.splits)

lemma bulk_rows_already:
  "fst (snd (snd (bulk_rows h i rows (er, em, al, du)))) =
     al @ filter (\<lambda>e. validate_email_to_link h e None None True = Inr True) rows"
  by (induction rows arbitrary: i er em al du) (auto split: sum.splits)

lemma bulk_rows_duplicates:
  "mset (fst (snd (bulk_rows h i rows (er, em, al, du)))) +
   mset (snd (snd (snd (bulk_rows h i rows (er, em, al, du))))) =
     mset em + mset du +
     mset (filter (\<lambda>e. validate_email_to_link h e None None True = Inr False) rows)"
  by (induction rows arbitrary: i er em al du) (auto split: sum.splits)

lemma fold_link_user:
  "fold (link_user c) es w =
     w\<lparr>link_user_calls := link_user_calls w @ map (Pair (ec_uuid c)) es\<rparr>"
  by (induction es arbitrary: w) (simp_all add: link_user_def)

lemma fold_add_error:
  "fold (add_error f) es w = w\<lparr>form_errors := form_errors w @ map (Pair f) es\<rparr>"
  by (induction es arbitrary: w) (simp_all add: add_error_def)

lemma bulk_collect_errors:
  assumes "parse_csv h csv_file = (rows, failure)"
  shows "length (fst (bulk_collect h csv_file)) =
           length (filter (\<lambda>e. isl (validate_email_to_link h e None None True)) rows) +
           (if failure = None then 0 else 1)"
  using assms bulk_rows_errors_length [of h 0 rows "[]" "[]" "[]" "[]"]
  by (auto simp: bulk_collect_def split: prod.splits option.splits)

lemma bulk_collect_lists:
  assumes "parse_csv h csv_file = (rows, failure)"
      and "bulk_collect h csv_file = (errors, emails, already, dups)"
  shows "distinct emails"
    and "set emails = {e \<in> set rows. validate_email_to_link h e None None True = Inr False}"
    and "already = filter (\<lambda>e. validate_email_to_link h e None None True = Inr True) rows"
    and "mset emails + mset dups =
           mset (filter (\<lambda>e. validate_email_to_link h e None None True = Inr False) rows)"
  using assms bulk_rows_distinct [of "[]" h 0 rows "[]" "[]" "[]"]
    bulk_rows_emails [of h 0 rows "[]" "[]" "[]" "[]"]
    bulk_rows_already [of h 0 rows "[]" "[]" "[]" "[]"]
    bulk_rows_duplicates [of h 0 rows "[]" "[]" "[]" "[]"]
  by (auto simp: bulk_collect_def split: prod.splits option.splits)

text \<open>
  Claim C6. Bulk linking is all or nothing with respect to validation: when parsing the CSV
  fails or some row's email fails validation, \<^verbatim>\<open>_handle_bulk_upload\<close> returns \<open>None\<close>
  and calls \<^verbatim>\<open>link_user\<close> for no email. The errors of the whole file are collected
  (one for each failing row, one for a failure of the parser) and added to the form; the
  linking loop is reached only when there is none.
\<close>

theorem bulk_upload_atomic:
  assumes parsed: "parse_csv h csv_file = (rows, failure)"
      and invalid: "failure \<noteq> None \<or>
                    (\<exists>e\<in>set rows. isl (validate_email_to_link h e None None True))"
  shows "\<exists>errors. errors \<noteq> [] \<and>
           length errors =
             length (filter (\<lambda>e. isl (validate_email_to_link h e None None True)) rows) +
             (if failure = None then 0 else 1) \<and>
           handle_bulk_upload h c csv_file w =
             (None, w\<lparr>form_errors := form_errors w @
                        (GENERAL_ERRORS, Constant_message BULK_LINK_FAILED) #
                        map (Pair BULK_UPLOAD) errors\<rparr>) \<and>
           link_user_calls (snd (handle_bulk_upload h c csv_file w)) = link_user_calls w"
proof -
  obtain errors emails already dups
    where collect: "bulk_collect h csv_file = (errors, emails, already, dups)"
    by (cases "bulk_collect h csv_file") auto
  have len: "length errors =
      length (filter (\<lambda>e. isl (validate_email_to_link h e None None True)) rows) +
      (if failure = None then 0 else 1)"
    using bulk_collect_errors [OF parsed] collect by simp
  have "0 < length errors"
  proof (cases "failure = None")
    case True
    with invalid obtain e
      where "e \<in> set rows" "isl (validate_email_to_link h e None None True)"
      by auto
    then have "filter (\<lambda>e. isl (validate_email_to_link h e None None True)) rows \<noteq> []"
      by (auto simp: filter_empty_conv)
    with len show ?thesis by simp
  next
    case False
    with len show ?thesis by simp
  qed
  then have nonempty: "errors \<noteq> []" by auto
  have "handle_bulk_upload h c csv_file w =
      (None, w\<lparr>form_errors := form_errors w @
                 (GENERAL_ERRORS, Constant_message BULK_LINK_FAILED) #
                 map (Pair BULK_UPLOAD) errors\<rparr>)"
    using collect nonempty
    by (simp add: handle_bulk_upload_def fold_add_error add_error_def)
  with nonempty len show ?thesis by auto
qed


text \<open>The theorem on a file of three rows whose second row is not an email: one error, no link.\<close>

theorem bulk_upload_atomic_witness:
  "\<exists>errors. errors \<noteq> [] \<and> length errors = 1 \<and>
     handle_bulk_upload example_helpers acme ''bad.csv'' empty_world =
       (None, empty_world\<lparr>form_errors :=
                (GENERAL_ERRORS, Constant_message BULK_LINK_FAILED) #
                map (Pair BULK_UPLOAD) errors\<rparr>) \<and>
     link_user_calls (snd (handle_bulk_upload example_helpers acme ''bad.csv'' empty_world)) = []"
proof -
  have parsed: "parse_csv example_helpers ''bad.csv'' =
      ([''bob@example.com'', ''not-an-email'', ''al@example.com''], None)"
    by (simp add: example_helpers_def)
  have invalid: "None \<noteq> (None :: string option) \<or>
      (\<exists>e\<in>set [''bob@example.com'', ''not-an-email'', ''al@example.com''].
         isl (validate_email_to_link example_helpers e None None True))"
    by (simp add: example_helpers_def)
  show ?thesis
    using bulk_upload_atomic [OF parsed invalid, of acme empty_world]
    by (simp add: example_helpers_def empty_world_def)
qed


subsection \<open>Linking learners\<close>

text \<open>
  Claim C2. In single mode, when \<^verbatim>\<open>validate_email_to_link\<close> accepts the email that the
  submitted value resolves to (it is valid and not yet linked), \<^verbatim>\<open>link_user\<close> is called
  once, with that email, and the handler returns the one-element list of it. In bulk mode,
  when the CSV parses and no row fails validation, \<^verbatim>\<open>link_user\<close> is called once for each
  distinct email of the CSV that is not already linked, the success message counts these,
  the already linked emails and the repeated ones are reported in warnings, and the handler
  returns the newly linked emails followed by the already linked ones.
\<close>

theorem link_learners:
  "(\<not> isl (validate_email_to_link h (email_or_username__to__email h v) (Some v)
             (Some INVALID_EMAIL_OR_USERNAME) False) \<longrightarrow>
        handle_singular h c v w =
          (Some [email_or_username__to__email h v],
           w\<lparr>link_user_calls :=
               link_user_calls w @ [(ec_uuid c, email_or_username__to__email h v)]\<rparr>)) \<and>
   (parse_csv h csv_file = (rows, None) \<and>
    (\<forall>e\<in>set rows. \<not> isl (validate_email_to_link h e None None True)) \<longrightarrow>
      (\<exists>linked duplicates.
         distinct linked \<and>
         set linked = {e \<in> set rows. validate_email_to_link h e None None True = Inr False} \<and>
         mset linked + mset duplicates =
           mset (filter (\<lambda>e. validate_email_to_link h e None None True = Inr False) rows) \<and>
         handle_bulk_upload h c csv_file w =
           (Some (linked @
                  filter (\<lambda>e. validate_email_to_link h e None None True = Inr True) rows),
            w\<lparr>link_user_calls := link_user_calls w @ map (Pair (ec_uuid c)) linked,
               messages := messages w @
                 [(Success, Users_linked (length linked) (ec_name c))] @
                 (if filter (\<lambda>e. validate_email_to_link h e None None True = Inr True) rows
                     \<noteq> []
                  then [(Warning, Already_linked
                          (filter (\<lambda>e. validate_email_to_link h e None None True = Inr True)
                             rows))]
                  else []) @
                 (if duplicates \<noteq> [] then [(Warning, Duplicates_ignored duplicates)]
                  else [])\<rparr>)))"
proof (intro conjI impI)
  assume "\<not> isl (validate_email_to_link h (email_or_username__to__email h v) (Some v)
            (Some INVALID_EMAIL_OR_USERNAME) False)"
  then show "handle_singular h c v w =
      (Some [email_or_username__to__email h v],
       w\<lparr>link_user_calls :=
           link_user_calls w @ [(ec_uuid c, email_or_username__to__email h v)]\<rparr>)"
    by (auto simp: handle_singular_def link_user_def Let_def split: sum.splits)
next
  assume valid: "parse_csv h csv_file = (rows, None) \<and>
    (\<forall>e\<in>set rows. \<not> isl (validate_email_to_link h e None None True))"
  then have parsed: "parse_csv h csv_file = (rows, None)" by simp
  obtain errors emails already dups
    where collect: "bulk_collect h csv_file = (errors, emails, already, dups)"
    by (cases "bulk_collect h csv_file") auto
  have "filter (\<lambda>e. isl (validate_email_to_link h e None None True)) rows = []"
    using valid by (simp add: filter_empty_conv)
  then have no_errors: "errors = []"
    using bulk_collect_errors [OF parsed] collect by simp
  note lists = bulk_collect_lists [OF parsed collect]
  let ?linked = "set_iteration h emails"
  have "distinct ?linked"
    using lists(1) by (simp add: set_iteration_def)
  moreover have "set ?linked =
      {e \<in> set rows. validate_email_to_link h e None None True = Inr False}"
    using lists(2) by (simp add: set_iteration_def)
  moreover have "mset ?linked + mset dups =
      mset (filter (\<lambda>e. validate_email_to_link h e None None True = Inr False) rows)"
    using lists(4) by (simp add: set_iteration_def)
  moreover have "handle_bulk_upload h c csv_file w =
      (Some (?linked @ already),
       w\<lparr>link_user_calls := link_user_calls w @ map (Pair (ec_uuid c)) ?linked,
          messages := messages w @
            [(Success, Users_linked (length ?linked) (ec_name c))] @
            (if already \<noteq> [] then [(Warning, Already_linked already)] else []) @
            (if dups \<noteq> [] then [(Warning, Duplicates_ignored dups)] else [])\<rparr>)"
    using collect no_errors
    by (simp add: handle_bulk_upload_def fold_link_user add_message_def set_iteration_def)
  ultimately show "\<exists>linked duplicates.
         distinct linked \<and>
         set linked = {e \<in> set rows. validate_email_to_link h e None None True = Inr False} \<and>
         mset linked + mset duplicates =
           mset (filter (\<lambda>e. validate_email_to_link h e None None True = Inr False) rows) \<and>
         handle_bulk_upload h c csv_file w =
           (Some (linked @
                  filter (\<lambda>e. validate_email_to_link h e None None True = Inr True) rows),
            w\<lparr>link_user_calls := link_user_calls w @ map (Pair (ec_uuid c)) linked,
               messages := messages w @
                 [(Success, Users_linked (length linked) (ec_name c))] @
                 (if filter (\<lambda>e. validate_email_to_link h e None None True = Inr True) rows
                     \<noteq> []
                  then [(Warning, Already_linked
                          (filter (\<lambda>e. validate_email_to_link h e None None True = Inr True)
                             rows))]
                  else []) @
                 (if duplicates \<noteq> [] then [(Warning, Duplicates_ignored duplicates)]
                  else [])\<rparr>)"
    unfolding lists(3) [symmetric] by blast
qed


text \<open>The theorem on a username that resolves to an email, and on a file of four rows with one repeated and one already linked email.\<close>

theorem link_learners_witness:
  "handle_singular example_helpers acme ''alice'' empty_world =
     (Some [''alice@example.com''],
      empty_world\<lparr>link_user_calls := [(''acme-uuid'', ''alice@example.com'')]\<rparr>) \<and>
   (\<exists>linked duplicates.
      distinct linked \<and> set linked = {''bob@example.com'', ''al@example.com''} \<and>
      mset linked + mset duplicates =
        {#''bob@example.com'', ''al@example.com'', ''bob@example.com''#} \<and>
      handle_bulk_upload example_helpers acme ''good.csv'' empty_world =
        (Some (linked @ [''old@example.com'']),
         empty_world\<lparr>link_user_calls := map (Pair ''acme-uuid'') linked,
           messages :=
             [(Success, Users_linked (length linked) ''Acme''),
              (Warning, Already_linked [''old@example.com''])] @
             (if duplicates \<noteq> [] then [(Warning, Duplicates_ignored duplicates)]
              else [])\<rparr>))"
proof -
  let ?rows = "[''bob@example.com'', ''al@example.com'', ''old@example.com'',
                ''bob@example.com'']"
  note inst = link_learners [of example_helpers "''alice''" acme empty_world "''good.csv''"
      ?rows]
  have single: "\<not> isl (validate_email_to_link example_helpers
      (email_or_username__to__email example_helpers ''alice'') (Some ''alice'')
      (Some INVALID_EMAIL_OR_USERNAME) False)"
    by (simp add: example_helpers_def)
  have bulk: "parse_csv example_helpers ''good.csv'' = (?rows, None) \<and>
    (\<forall>e\<in>set ?rows. \<not> isl (validate_email_to_link example_helpers e None None True))"
    by (simp add: example_helpers_def)
  have resolved: "email_or_username__to__email example_helpers ''alice'' = ''alice@example.com''"
    by (simp add: example_helpers_def)
  have new: "{e \<in> set ?rows.
          validate_email_to_link example_helpers e None None True = Inr False} =
        {''bob@example.com'', ''al@example.com''}"
    by (auto simp: example_helpers_def)
  have new_rows: "filter (\<lambda>e. validate_email_to_link example_helpers e None None True =
          Inr False) ?rows = [''bob@example.com'', ''al@example.com'', ''bob@example.com'']"
    by (simp add: example_helpers_def)
  have old_rows: "filter (\<lambda>e. validate_email_to_link example_helpers e None None True =
          Inr True) ?rows = [''old@example.com'']"
    by (simp add: example_helpers_def)
  from inst single have one: "handle_singular example_helpers acme ''alice'' empty_world =
     (Some [''alice@example.com''],
      empty_world\<lparr>link_user_calls := [(''acme-uuid'', ''alice@example.com'')]\<rparr>)"
    by (simp add: resolved acme_def empty_world_def)
  from inst bulk obtain linked duplicates where
    many: "distinct linked"
      "set linked = {''bob@example.com'', ''al@example.com''}"
      "mset linked + mset duplicates =
         {#''bob@example.com'', ''al@example.com'', ''bob@example.com''#}"
      "handle_bulk_upload example_helpers acme ''good.csv'' empty_world =
        (Some (linked @ [''old@example.com'']),
         empty_world\<lparr>link_user_calls := map (Pair ''acme-uuid'') linked,
           messages :=
             [(Success, Users_linked (length linked) ''Acme''),
              (Warning, Already_linked [''old@example.com''])] @
             (if duplicates \<noteq> [] then [(Warning, Duplicates_ignored duplicates)]
              else [])\<rparr>)"
    unfolding new new_rows old_rows by (auto simp: acme_def empty_world_def)
  from one many show ?thesis by blast
qed

subsection \<open>Enrolling learners\<close>



















subsection \<open>The logo of a branding configuration\<close>



subsection \<open>Role assignments\<close>

text \<open>
  Claim C7. For an \<^verbatim>\<open>EnterpriseCustomerUser\<close> record whose user is not null, the
  \<^verbatim>\<open>enterprise_learner\<close> role assignment of that user for the record's customer follows
  the record: after \<^verbatim>\<open>post_save\<close> it is present when the record was created or is linked,
  and absent when an existing record was saved unlinked; after \<^verbatim>\<open>post_delete\<close> both the
  learner and the admin role assignment are absent. No other role assignment changes.
\<close>

theorem learner_role_tracks_record:
  assumes "ecu_user inst = Some u"
  shows "let c = ecu_enterprise_customer inst;
             learner = (user_id u, Enterprise_learner, ec_uuid c);
             admin = (user_id u, Enterprise_admin, ec_uuid c);
             saved = role_assignments (assign_or_delete_enterprise_learner_role inst created w);
             deleted = role_assignments (post_delete_enterprise_customer_user inst w)
         in (created \<longrightarrow> learner \<in> saved) \<and>
            (\<not> created \<and> ecu_linked inst \<longrightarrow> learner \<in> saved) \<and>
            (\<not> created \<and> \<not> ecu_linked inst \<longrightarrow> learner \<notin> saved) \<and>
            saved - {learner} = role_assignments w - {learner} \<and>
            learner \<notin> deleted \<and> admin \<notin> deleted \<and>
            deleted = role_assignments w - {learner, admin}"
proof -
  let ?c = "ecu_enterprise_customer inst"
  have created_or_linked: "created \<or> ecu_linked inst \<Longrightarrow>
      assign_or_delete_enterprise_learner_role inst created w = assign_learner_role u ?c w"
    using assms by (auto simp: assign_or_delete_enterprise_learner_role_def)
  have unlinked: "\<not> created \<Longrightarrow> \<not> ecu_linked inst \<Longrightarrow>
      assign_or_delete_enterprise_learner_role inst created w =
        delete_learner_role_assignment u ?c w"
    using assms by (simp add: assign_or_delete_enterprise_learner_role_def)
  have removed: "post_delete_enterprise_customer_user inst w =
      delete_learner_role_assignment u ?c (delete_admin_role_assignment u ?c w)"
    using assms
    by (simp add: post_delete_enterprise_customer_user_def
        delete_enterprise_learner_role_assignment_def
        delete_enterprise_admin_role_assignment_def)
  show ?thesis
  proof (cases "created \<or> ecu_linked inst")
    case True
    then show ?thesis
      unfolding Let_def removed created_or_linked [OF True]
      by (auto simp: assign_learner_role_def delete_learner_role_assignment_def
          delete_admin_role_assignment_def)
  next
    case False
    then have "\<not> created" "\<not> ecu_linked inst" by simp_all
    then show ?thesis
      unfolding Let_def removed unlinked [OF \<open>\<not> created\<close> \<open>\<not> ecu_linked inst\<close>]
      by (auto simp: assign_learner_role_def delete_learner_role_assignment_def
          delete_admin_role_assignment_def)
  qed
qed

text \<open>The theorem on an unlinked record of a user who holds both roles.\<close>

theorem learner_role_tracks_record_witness:
  "(1, Enterprise_learner, ''acme-uuid'') \<in>
     role_assignments (assign_or_delete_enterprise_learner_role unlinked_learner True empty_world) \<and>
   (1, Enterprise_learner, ''acme-uuid'') \<notin>
     role_assignments (assign_or_delete_enterprise_learner_role unlinked_learner False with_roles) \<and>
   role_assignments (post_delete_enterprise_customer_user unlinked_learner with_roles) =
     {(2, Enterprise_learner, ''acme-uuid'')}"
proof -
  have user: "ecu_user unlinked_learner = Some bob"
    by (simp add: unlinked_learner_def)
  have fields: "ecu_enterprise_customer unlinked_learner = acme" "user_id bob = 1"
    "ec_uuid acme = ''acme-uuid''" "\<not> ecu_linked unlinked_learner"
    by (simp_all add: unlinked_learner_def bob_def acme_def)
  have roles: "role_assignments with_roles - {(1, Enterprise_learner, ''acme-uuid''),
      (1, Enterprise_admin, ''acme-uuid'')} = {(2, Enterprise_learner, ''acme-uuid'')}"
    by (auto simp: with_roles_def empty_world_def)
  from learner_role_tracks_record [OF user, of True empty_world]
  have one: "(1, Enterprise_learner, ''acme-uuid'') \<in>
     role_assignments (assign_or_delete_enterprise_learner_role unlinked_learner True empty_world)"
    by (simp add: Let_def fields)
  from learner_role_tracks_record [OF user, of False with_roles]
  have two: "(1, Enterprise_learner, ''acme-uuid'') \<notin>
     role_assignments (assign_or_delete_enterprise_learner_role unlinked_learner False with_roles)"
    "role_assignments (post_delete_enterprise_customer_user unlinked_learner with_roles) =
     {(2, Enterprise_learner, ''acme-uuid'')}"
    using roles by (simp_all add: Let_def fields)
  from one two show ?thesis by simp
qed

subsection \<open>Pending admin users\<close>






subsection \<open>Catalog synchronisation\<close>




subsection \<open>Outbound calls per event\<close>











subsection \<open>Failure recovery\<close>




subsection \<open>Deferred work\<close>




end
